theory Spec2Isabelle
  imports Main "HOL-Library.Product_Lexorder"
begin

section \<open>NoteApp: the note and project data model and its persistence\<close>

text \<open>
  A shallow embedding of the classes \<open>NoteCategory\<close>, \<open>Note\<close>, \<open>Project\<close> and
  \<open>ProjectManager\<close> of \<^verbatim>\<open>NoteApp.py\<close>. The Tkinter class \<open>NoteApp\<close> only calls
  these and is not modelled.

  Conventions of the embedding:
  \<^item> a Python \<open>str\<close> is the list of its Unicode code points (\<open>pystr\<close>), so that
    \<open>len\<close> and slicing count code points, as Python does;
  \<^item> a method that mutates \<open>self\<close> takes the object and returns the updated one;
  \<^item> \<open>datetime.now()\<close> reads the system clock: the reading is an explicit argument
    \<open>now\<close> of every function whose source calls it;
  \<^item> a raised exception is the \<open>Inl\<close> summand of the result;
  \<^item> what the standard library does outside the cases written out below is a
    parameter of the functions that call it (\<open>lib\<close>, \<open>fmt\<close>, \<open>cmp\<close>), and every
    property is proved for all values of these parameters.
\<close>

subsection \<open>Strings\<close>

type_synonym pystr = "nat list"

definition str :: "string \<Rightarrow> pystr" where
  \<comment> \<open>an ASCII literal as a Python string\<close>
  "str cs = map of_char cs"

definition truthy :: "pystr option \<Rightarrow> bool" where
  \<comment> \<open>Python truth value of an argument that is \<open>None\<close> or a \<open>str\<close>\<close>
  "truthy a = (case a of None \<Rightarrow> False | Some s \<Rightarrow> s \<noteq> [])"

subsection \<open>Exceptions\<close>

datatype py_error = KeyError | ValueError | TypeError | JSONDecodeError

subsection \<open>The standard library's \<open>datetime\<close>\<close>

text \<open>
  \<open>datetime\<close> is not code of the application. A naive datetime, which is what
  \<open>datetime.now()\<close> returns, is the record of its seven fields. Two of them are
  compared field by field from the year down to the microsecond, and \<open>isoformat()\<close>
  writes one as \<^verbatim>\<open>YYYY-MM-DDTHH:MM:SS\<close>, with \<^verbatim>\<open>.ffffff\<close> appended when the
  microsecond is not zero.
\<close>

record datetime =
  year :: nat
  month :: nat
  day :: nat
  hour :: nat
  minute :: nat
  second :: nat
  microsecond :: nat

definition dt_key :: "datetime \<Rightarrow> nat \<times> nat \<times> nat \<times> nat \<times> nat \<times> nat \<times> nat" where
  "dt_key d = (year d, month d, day d, hour d, minute d, second d, microsecond d)"

definition dt_le :: "datetime \<Rightarrow> datetime \<Rightarrow> bool" where
  \<comment> \<open>\<open>a <= b\<close> on naive datetimes\<close>
  "dt_le a b = (dt_key a \<le> dt_key b)"

definition is_leap :: "nat \<Rightarrow> bool" where
  "is_leap y = (y mod 4 = 0 \<and> (y mod 100 \<noteq> 0 \<or> y mod 400 = 0))"

definition days_in_month :: "nat \<Rightarrow> nat \<Rightarrow> nat" where
  "days_in_month y m =
     (if m = 2 then (if is_leap y then 29 else 28)
      else if m = 4 \<or> m = 6 \<or> m = 9 \<or> m = 11 then 30 else 31)"

definition valid_datetime :: "datetime \<Rightarrow> bool" where
  \<comment> \<open>the ranges the \<open>datetime\<close> constructor enforces\<close>
  "valid_datetime d =
     (1 \<le> year d \<and> year d \<le> 9999 \<and> 1 \<le> month d \<and> month d \<le> 12 \<and>
      1 \<le> day d \<and> day d \<le> days_in_month (year d) (month d) \<and>
      hour d < 24 \<and> minute d < 60 \<and> second d < 60 \<and> microsecond d < 1000000)"

fun zpad :: "nat \<Rightarrow> nat \<Rightarrow> pystr" where
  \<comment> \<open>\<open>"%0wd" % n\<close> for \<open>n < 10 ^ w\<close>: the \<open>w\<close> decimal digits of \<open>n\<close>\<close>
  "zpad 0 n = []"
| "zpad (Suc w) n = zpad w (n div 10) @ [48 + n mod 10]"

definition isoformat_naive :: "datetime \<Rightarrow> pystr" where
  \<comment> \<open>\<open>d.isoformat()\<close> for a naive \<open>d\<close>\<close>
  "isoformat_naive d =
     zpad 4 (year d) @ str ''-'' @ zpad 2 (month d) @ str ''-'' @ zpad 2 (day d) @ str ''T'' @
     zpad 2 (hour d) @ str '':'' @ zpad 2 (minute d) @ str '':'' @ zpad 2 (second d) @
     (if microsecond d = 0 then [] else str ''.'' @ zpad 6 (microsecond d))"

definition is_digit :: "nat \<Rightarrow> bool" where
  "is_digit c = (48 \<le> c \<and> c \<le> 57)"

definition parse_digits :: "pystr \<Rightarrow> nat option" where
  "parse_digits s =
     (if list_all is_digit s then Some (foldl (\<lambda>a c. 10 * a + (c - 48)) 0 s) else None)"

definition slice :: "nat \<Rightarrow> nat \<Rightarrow> 'a list \<Rightarrow> 'a list" where
  \<comment> \<open>\<open>s[i:j]\<close> for \<open>0 <= i <= j\<close>\<close>
  "slice i j s = take (j - i) (drop i s)"

definition parse_written :: "pystr \<Rightarrow> datetime option" where
  \<comment> \<open>the strings on which the result of \<open>datetime.fromisoformat\<close> is written out
      here: \<^verbatim>\<open>YYYY-MM-DDTHH:MM:SS\<close> and \<^verbatim>\<open>YYYY-MM-DDTHH:MM:SS.ffffff\<close> whose digits
      are the fields of a naive datetime within the constructor's ranges. On these
      the result is that datetime; on any other string this function gives \<open>None\<close>,
      which says nothing about the library.\<close>
  "parse_written s =
     (if (length s = 19 \<or> length s = 26 \<and> s ! 19 = 46) \<and>
         s ! 4 = 45 \<and> s ! 7 = 45 \<and> s ! 10 = 84 \<and> s ! 13 = 58 \<and> s ! 16 = 58
      then
        (case (parse_digits (slice 0 4 s), parse_digits (slice 5 7 s),
               parse_digits (slice 8 10 s), parse_digits (slice 11 13 s),
               parse_digits (slice 14 16 s), parse_digits (slice 17 19 s),
               parse_digits (slice 20 26 s)) of
           (Some y, Some m, Some d, Some h, Some mi, Some sec, Some us) \<Rightarrow>
             (let dt = \<lparr>year = y, month = m, day = d, hour = h, minute = mi,
                        second = sec, microsecond = us\<rparr>
              in if valid_datetime dt then Some dt else None)
         | _ \<Rightarrow> None)
      else None)"

text \<open>
  \<open>datetime.fromisoformat\<close> reads more than that: a date alone, shorter times,
  other separators, fractions of other lengths, UTC offsets, with the details
  depending on the Python version. From a string with a UTC offset it builds a
  datetime that carries a time zone. So a timestamp is either \<open>Naive\<close> or \<open>Aware\<close>,
  the content of an aware one being left open (the type variable), and three
  parameters stand for the library on what is not written out:
  \<^item> \<open>lib s\<close>: what \<open>fromisoformat\<close> returns on a string \<open>s\<close> that \<open>parse_written\<close> does not
    cover, \<open>None\<close> being its \<open>ValueError\<close>;
  \<^item> \<open>fmt a\<close>: what \<open>isoformat()\<close> writes for the aware datetime \<open>a\<close>;
  \<^item> \<open>cmp a b\<close>: whether \<open>a <= b\<close> for two aware datetimes.
\<close>

datatype 'a timestamp = Naive datetime | Aware 'a

definition fromisoformat :: "(pystr \<Rightarrow> 'a timestamp option) \<Rightarrow> pystr \<Rightarrow> 'a timestamp option" where
  "fromisoformat lib s = (case parse_written s of Some d \<Rightarrow> Some (Naive d) | None \<Rightarrow> lib s)"

fun isoformat :: "('a \<Rightarrow> pystr) \<Rightarrow> 'a timestamp \<Rightarrow> pystr" where
  "isoformat fmt (Naive d) = isoformat_naive d"
| "isoformat fmt (Aware a) = fmt a"

fun ts_le :: "('a \<Rightarrow> 'a \<Rightarrow> bool) \<Rightarrow> 'a timestamp \<Rightarrow> 'a timestamp \<Rightarrow> py_error + bool" where
  \<comment> \<open>\<open>x <= y\<close>; comparing a naive with an aware datetime raises \<open>TypeError\<close>\<close>
  "ts_le cmp (Naive a) (Naive b) = Inr (dt_le a b)"
| "ts_le cmp (Aware a) (Aware b) = Inr (cmp a b)"
| "ts_le cmp (Naive a) (Aware b) = Inl TypeError"
| "ts_le cmp (Aware a) (Naive b) = Inl TypeError"

subsection \<open>NoteCategory\<close>

datatype NoteCategory = WORK | HOME | HEALTH | PEOPLE | DOCUMENTS | FINANCE | MISC

fun category_value :: "NoteCategory \<Rightarrow> pystr" where
  \<comment> \<open>\<open>member.value\<close>: the Russian display strings, as code points\<close>
  "category_value WORK = [1056, 1072, 1073, 1086, 1090, 1072]"
| "category_value HOME = [1044, 1086, 1084]"
| "category_value HEALTH =
     [1047, 1076, 1086, 1088, 1086, 1074, 1100, 1077, 32, 1080, 32, 1057, 1087, 1086, 1088, 1090]"
| "category_value PEOPLE = [1051, 1102, 1076, 1080]"
| "category_value DOCUMENTS = [1044, 1086, 1082, 1091, 1084, 1077, 1085, 1090, 1099]"
| "category_value FINANCE = [1060, 1080, 1085, 1072, 1085, 1089, 1099]"
| "category_value MISC = [1056, 1072, 1079, 1085, 1086, 1077]"

definition NoteCategory_members :: "NoteCategory list" where
  "NoteCategory_members = [WORK, HOME, HEALTH, PEOPLE, DOCUMENTS, FINANCE, MISC]"

definition NoteCategory_call :: "pystr \<Rightarrow> NoteCategory option" where
  \<comment> \<open>\<open>NoteCategory(v)\<close>: the member whose value is \<open>v\<close>; \<open>None\<close> is its \<open>ValueError\<close>\<close>
  "NoteCategory_call v = find (\<lambda>c. category_value c = v) NoteCategory_members"

subsection \<open>Note\<close>

record 'a Note =
  title :: pystr
  category :: NoteCategory
  content :: pystr
  created_at :: "'a timestamp"
  updated_at :: "'a timestamp"

definition default_heading :: pystr where
  \<comment> \<open>the default of \<open>heading\<close>, as code points\<close>
  "default_heading = [1041, 1077, 1079, 32, 1085, 1072, 1079, 1074, 1072, 1085, 1080, 1103]"

definition Note_init :: "pystr \<Rightarrow> NoteCategory \<Rightarrow> pystr \<Rightarrow> datetime \<Rightarrow> 'a Note" where
  "Note_init heading category' content_body now =
     \<lparr>title = take 50 heading, category = category', content = content_body,
      created_at = Naive now, updated_at = Naive now\<rparr>"

definition Note_default :: "datetime \<Rightarrow> 'a Note" where
  \<comment> \<open>\<open>Note()\<close>, every argument left at its default\<close>
  "Note_default now = Note_init default_heading MISC [] now"

definition Note_update ::
  "'a Note \<Rightarrow> pystr option \<Rightarrow> NoteCategory option \<Rightarrow> pystr option \<Rightarrow> datetime \<Rightarrow> 'a Note" where
  \<comment> \<open>the arguments default to \<open>None\<close>; every member of \<open>NoteCategory\<close> is true\<close>
  "Note_update self heading category' content_body now =
     (let s1 = (if truthy heading then self\<lparr>title := take 50 (the heading)\<rparr> else self);
          s2 = (if category' \<noteq> None then s1\<lparr>category := the category'\<rparr> else s1);
          s3 = (if truthy content_body then s2\<lparr>content := the content_body\<rparr> else s2)
      in s3\<lparr>updated_at := Naive now\<rparr>)"

type_synonym note_dict = "pystr \<rightharpoonup> pystr"

definition Note_to_dict :: "('a \<Rightarrow> pystr) \<Rightarrow> 'a Note \<Rightarrow> note_dict" where
  "Note_to_dict fmt self =
     [str ''title'' \<mapsto> title self,
      str ''category'' \<mapsto> category_value (category self),
      str ''content'' \<mapsto> content self,
      str ''created_at'' \<mapsto> isoformat fmt (created_at self),
      str ''updated_at'' \<mapsto> isoformat fmt (updated_at self)]"

definition Note_from_dict ::
  "(pystr \<Rightarrow> 'a timestamp option) \<Rightarrow> note_dict \<Rightarrow> datetime \<Rightarrow> py_error + 'a Note" where
  \<comment> \<open>\<open>data\<close> is a dict from strings to strings, the shape \<open>to_dict\<close> writes; a missing
      key raises \<open>KeyError\<close>. The arguments of \<open>cls(...)\<close> are evaluated in the order
      written, then the constructor runs (reading the clock), then the two timestamps
      are parsed and assigned.\<close>
  "Note_from_dict lib data now =
     (case data (str ''title'') of None \<Rightarrow> Inl KeyError | Some heading \<Rightarrow>
      case data (str ''category'') of None \<Rightarrow> Inl KeyError | Some cv \<Rightarrow>
      case NoteCategory_call cv of None \<Rightarrow> Inl ValueError | Some category' \<Rightarrow>
      case data (str ''content'') of None \<Rightarrow> Inl KeyError | Some content_body \<Rightarrow>
      let note_instance = Note_init heading category' content_body now in
      case data (str ''created_at'') of None \<Rightarrow> Inl KeyError | Some cs \<Rightarrow>
      case fromisoformat lib cs of None \<Rightarrow> Inl ValueError | Some c \<Rightarrow>
      let note_instance = note_instance\<lparr>created_at := c\<rparr> in
      case data (str ''updated_at'') of None \<Rightarrow> Inl KeyError | Some us \<Rightarrow>
      case fromisoformat lib us of None \<Rightarrow> Inl ValueError | Some u \<Rightarrow>
      Inr (note_instance\<lparr>updated_at := u\<rparr>))"

subsection \<open>Project\<close>

record 'a Project =
  memo_collection :: "'a Note list"

definition Project_init :: "'a Project" where
  "Project_init = \<lparr>memo_collection = []\<rparr>"

definition add_note :: "'a Project \<Rightarrow> 'a Note \<Rightarrow> 'a Project" where
  "add_note self note_obj = self\<lparr>memo_collection := memo_collection self @ [note_obj]\<rparr>"

definition remove_note_by_index :: "'a Project \<Rightarrow> int \<Rightarrow> 'a Project" where
  \<comment> \<open>\<open>del xs[index]\<close> with \<open>0 <= index < len(xs)\<close> drops the element at \<open>index\<close>\<close>
  "remove_note_by_index self index =
     (if 0 \<le> index \<and> index < int (length (memo_collection self))
      then self\<lparr>memo_collection :=
             take (nat index) (memo_collection self) @
             drop (Suc (nat index)) (memo_collection self)\<rparr>
      else self)"

type_synonym project_dict = "pystr \<rightharpoonup> note_dict list"

definition Project_to_dict :: "('a \<Rightarrow> pystr) \<Rightarrow> 'a Project \<Rightarrow> project_dict" where
  "Project_to_dict fmt self =
     [str ''notes'' \<mapsto> map (Note_to_dict fmt) (memo_collection self)]"

fun notes_from_dicts ::
  "(pystr \<Rightarrow> 'a timestamp option) \<Rightarrow> note_dict list \<Rightarrow> datetime \<Rightarrow> py_error + 'a Note list" where
  \<comment> \<open>the list comprehension \<open>[Note.from_dict(note_data) for note_data in ...]\<close>: in
      order, the first exception ends it\<close>
  "notes_from_dicts lib [] now = Inr []"
| "notes_from_dicts lib (note_data # rest) now =
     (case Note_from_dict lib note_data now of
        Inl e \<Rightarrow> Inl e
      | Inr n \<Rightarrow> (case notes_from_dicts lib rest now of
                   Inl e \<Rightarrow> Inl e
                 | Inr ns \<Rightarrow> Inr (n # ns)))"

definition Project_from_dict ::
  "(pystr \<Rightarrow> 'a timestamp option) \<Rightarrow> project_dict \<Rightarrow> datetime \<Rightarrow> py_error + 'a Project" where
  \<comment> \<open>every \<open>Note.from_dict\<close> call reads the clock in its constructor call and
      overwrites the reading before it returns (lemma \<open>Note_from_dict_clock\<close>), so
      one reading \<open>now\<close> stands for all of them\<close>
  "Project_from_dict lib data now =
     (case data (str ''notes'') of
        None \<Rightarrow> Inl KeyError
      | Some ds \<Rightarrow> (case notes_from_dicts lib ds now of
                    Inl e \<Rightarrow> Inl e
                  | Inr ns \<Rightarrow> Inr (Project_init\<lparr>memo_collection := ns\<rparr>)))"

subsection \<open>ProjectManager: loading\<close>

text \<open>
  For \<open>load_project\<close> the file at \<open>DEFAULT_FILE_PATH\<close> is \<open>Absent\<close> (\<open>os.path.exists\<close>
  is false), \<open>Corrupt\<close> (\<open>json.load\<close> raises \<open>JSONDecodeError\<close> on its text), or it
  \<open>Holds\<close> the dict that \<open>json.load\<close> returns.
\<close>

datatype file_state = Absent | Corrupt | Holds project_dict

definition load_project ::
  "(pystr \<Rightarrow> 'a timestamp option) \<Rightarrow> file_state \<Rightarrow> datetime \<Rightarrow> py_error + 'a Project" where
  "load_project lib file now =
     (case file of
        Absent \<Rightarrow> Inr Project_init
      | Corrupt \<Rightarrow> Inl JSONDecodeError
      | Holds data \<Rightarrow> Project_from_dict lib data now)"

subsection \<open>Sequences of calls, and the records and notes the properties speak of\<close>

type_synonym update_call = "pystr option \<times> NoteCategory option \<times> pystr option \<times> datetime"

definition clock_of :: "update_call \<Rightarrow> datetime" where
  \<comment> \<open>the clock reading \<open>datetime.now()\<close> returns inside the call\<close>
  "clock_of u = snd (snd (snd u))"

fun updates :: "'a Note \<Rightarrow> update_call list \<Rightarrow> 'a Note" where
  \<comment> \<open>\<open>self.update(...)\<close> called once for each entry, in order\<close>
  "updates self [] = self"
| "updates self ((heading, category', content_body, now) # calls) =
     updates (Note_update self heading category' content_body now) calls"

definition has_fields ::
  "note_dict \<Rightarrow> pystr \<Rightarrow> pystr \<Rightarrow> pystr \<Rightarrow> pystr \<Rightarrow> pystr \<Rightarrow> bool" where
  \<comment> \<open>\<open>data\<close> is a persistence record: it has the five keys, with these values\<close>
  "has_fields data t cv b cs us =
     (data (str ''title'') = Some t \<and> data (str ''category'') = Some cv \<and>
      data (str ''content'') = Some b \<and> data (str ''created_at'') = Some cs \<and>
      data (str ''updated_at'') = Some us)"

fun valid_timestamp ::
  "(pystr \<Rightarrow> 'a timestamp option) \<Rightarrow> ('a \<Rightarrow> pystr) \<Rightarrow> 'a timestamp \<Rightarrow> bool" where
  \<comment> \<open>a naive datetime is one within the constructor's ranges; for an aware one,
      which only the library makes, the library reads back what it writes\<close>
  "valid_timestamp lib fmt (Naive d) = valid_datetime d"
| "valid_timestamp lib fmt (Aware a) = (fromisoformat lib (fmt a) = Some (Aware a))"

definition valid_Note ::
  "(pystr \<Rightarrow> 'a timestamp option) \<Rightarrow> ('a \<Rightarrow> pystr) \<Rightarrow> 'a Note \<Rightarrow> bool" where
  \<comment> \<open>a note the program can hold: a title of at most 50 characters, as the
      constructor, \<open>update\<close> and \<open>from_dict\<close> leave it, and two timestamps that are
      datetimes\<close>
  "valid_Note lib fmt n =
     (length (title n) \<le> 50 \<and> valid_timestamp lib fmt (created_at n) \<and>
      valid_timestamp lib fmt (updated_at n))"

section \<open>Values used in the examples\<close>

text \<open>
  The examples hold naive timestamps only and parse only strings that
  \<open>parse_written\<close> covers, so the three parameters play no part in them. They are
  fixed to: no aware datetimes (the type \<open>unit\<close> for their content) and a \<open>lib\<close> that
  reads nothing more.
\<close>

definition no_lib :: "pystr \<Rightarrow> unit timestamp option" where
  "no_lib s = None"

definition no_fmt :: "unit \<Rightarrow> pystr" where
  "no_fmt a = []"

definition no_cmp :: "unit \<Rightarrow> unit \<Rightarrow> bool" where
  "no_cmp a b = True"

definition noon :: datetime where
  "noon = \<lparr>year = 2024, month = 5, day = 17, hour = 12, minute = 0, second = 0,
           microsecond = 0\<rparr>"

definition later :: datetime where
  "later = \<lparr>year = 2024, month = 5, day = 17, hour = 12, minute = 30, second = 15,
            microsecond = 250000\<rparr>"

definition morning :: datetime where
  \<comment> \<open>a clock reading earlier than \<open>noon\<close>: the wall clock after it was set back\<close>
  "morning = noon\<lparr>hour := 11\<rparr>"

definition milk :: "unit Note" where
  "milk = Note_init (str ''Buy milk'') HOME (str ''2% milk, oat milk'') noon"

definition gym :: "unit Note" where
  "gym = Note_init (str ''Gym'') HEALTH (str ''Leg day'') noon"

definition taxes :: "unit Note" where
  "taxes = Note_init (str ''Taxes'') FINANCE [] later"

definition shelf :: "unit Project" where
  "shelf = \<lparr>memo_collection = [milk, gym, taxes]\<rparr>"

definition long_title :: pystr where
  \<comment> \<open>51 times the letter A\<close>
  "long_title = replicate 51 65"

definition long_record :: note_dict where
  "long_record =
     [str ''title'' \<mapsto> long_title,
      str ''category'' \<mapsto> category_value MISC,
      str ''content'' \<mapsto> [],
      str ''created_at'' \<mapsto> str ''2024-05-17T12:00:00'',
      str ''updated_at'' \<mapsto> str ''2024-05-17T12:30:15.250000'']"

definition long_note :: "unit Note" where
  "long_note =
     \<lparr>title = replicate 50 65, category = MISC, content = [], created_at = Naive noon,
      updated_at = Naive later\<rparr>"

definition long_file :: project_dict where
  "long_file = [str ''notes'' \<mapsto> [long_record, long_record]]"

definition bad_category :: note_dict where
  "bad_category =
     [str ''title'' \<mapsto> str ''Buy milk'',
      str ''category'' \<mapsto> str ''NotARealCategory'',
      str ''content'' \<mapsto> [],
      str ''created_at'' \<mapsto> str ''2024-05-17T12:00:00'',
      str ''updated_at'' \<mapsto> str ''2024-05-17T12:00:00'']"

definition bad_file :: project_dict where
  "bad_file = [str ''notes'' \<mapsto> [Note_to_dict no_fmt milk, bad_category]]"

definition backdated :: note_dict where
  \<comment> \<open>a record whose \<open>updated_at\<close> is a day before its \<open>created_at\<close>\<close>
  "backdated =
     [str ''title'' \<mapsto> str ''Buy milk'',
      str ''category'' \<mapsto> category_value HOME,
      str ''content'' \<mapsto> [],
      str ''created_at'' \<mapsto> str ''2024-05-17T12:00:00'',
      str ''updated_at'' \<mapsto> str ''2024-05-16T12:00:00'']"

definition backdated_note :: "unit Note" where
  "backdated_note =
     \<lparr>title = str ''Buy milk'', category = HOME, content = [], created_at = Naive noon,
      updated_at = Naive (noon\<lparr>day := 16\<rparr>)\<rparr>"

definition eggs_call :: update_call where
  "eggs_call = (Some (str ''Buy milk and eggs''), None, None, later)"

section \<open>Properties\<close>

subsection \<open>Timestamps survive \<open>isoformat\<close> and \<open>fromisoformat\<close>\<close>

lemma length_zpad [simp]: "length (zpad w n) = w"
  by (induction w arbitrary: n) auto

lemma zpad_all_digits: "list_all is_digit (zpad w n)"
  by (induction w arbitrary: n) (auto simp: is_digit_def)

lemma foldl_zpad: "foldl (\<lambda>a c. 10 * a + (c - 48)) 0 (zpad w n) = n mod 10 ^ w"
proof (induction w arbitrary: n)
  case 0
  show ?case by simp
next
  case (Suc w)
  have "n mod (10 * 10 ^ w) = 10 * (n div 10 mod 10 ^ w) + n mod 10"
    by (rule mod_mult2_eq)
  with Suc show ?case by simp
qed

lemma parse_digits_zpad: "n < 10 ^ w \<Longrightarrow> parse_digits (zpad w n) = Some n"
  by (simp add: parse_digits_def zpad_all_digits foldl_zpad)

lemma parse_digits_Nil: "parse_digits [] = Some 0"
  by (simp add: parse_digits_def)

lemma iso_shape:
  assumes "length a = 4" "length b = 2" "length c = 2" "length d = 2" "length e = 2"
    "length f = 2"
  shows "slice 0 4 (a @ x1 # b @ x2 # c @ x3 # d @ x4 # e @ x5 # f @ r) = a"
    and "slice 5 7 (a @ x1 # b @ x2 # c @ x3 # d @ x4 # e @ x5 # f @ r) = b"
    and "slice 8 10 (a @ x1 # b @ x2 # c @ x3 # d @ x4 # e @ x5 # f @ r) = c"
    and "slice 11 13 (a @ x1 # b @ x2 # c @ x3 # d @ x4 # e @ x5 # f @ r) = d"
    and "slice 14 16 (a @ x1 # b @ x2 # c @ x3 # d @ x4 # e @ x5 # f @ r) = e"
    and "slice 17 19 (a @ x1 # b @ x2 # c @ x3 # d @ x4 # e @ x5 # f @ r) = f"
    and "slice 20 26 (a @ x1 # b @ x2 # c @ x3 # d @ x4 # e @ x5 # f @ r) = take 6 (drop 1 r)"
    and "(a @ x1 # b @ x2 # c @ x3 # d @ x4 # e @ x5 # f @ r) ! 4 = x1"
    and "(a @ x1 # b @ x2 # c @ x3 # d @ x4 # e @ x5 # f @ r) ! 7 = x2"
    and "(a @ x1 # b @ x2 # c @ x3 # d @ x4 # e @ x5 # f @ r) ! 10 = x3"
    and "(a @ x1 # b @ x2 # c @ x3 # d @ x4 # e @ x5 # f @ r) ! 13 = x4"
    and "(a @ x1 # b @ x2 # c @ x3 # d @ x4 # e @ x5 # f @ r) ! 16 = x5"
    and "r \<noteq> [] \<Longrightarrow> (a @ x1 # b @ x2 # c @ x3 # d @ x4 # e @ x5 # f @ r) ! 19 = hd r"
  using assms by (simp_all add: slice_def nth_append hd_conv_nth)

lemmas iso_shape_Nil = iso_shape(1-12) [where r = "[]", simplified]

lemma parse_written_isoformat:
  assumes "valid_datetime d"
  shows "parse_written (isoformat_naive d) = Some d"
proof (cases d)
  case (fields y m dd h mi s us)
  from assms have ranges: "y < 10 ^ 4" "m < 10 ^ 2" "dd < 10 ^ 2" "h < 10 ^ 2" "mi < 10 ^ 2"
    "s < 10 ^ 2" "us < 10 ^ 6"
    by (auto simp: fields valid_datetime_def days_in_month_def split: if_splits)
  note digits = ranges [THEN parse_digits_zpad]
  show ?thesis
  proof (cases "us = 0")
    case True
    with assms show ?thesis
      by (simp add: fields parse_written_def isoformat_naive_def str_def iso_shape_Nil digits
          parse_digits_Nil)
  next
    case False
    with assms show ?thesis
      by (simp add: fields parse_written_def isoformat_naive_def str_def iso_shape digits)
  qed
qed

lemma parse_written_valid: "parse_written s = Some d \<Longrightarrow> valid_datetime d"
  by (auto simp: parse_written_def Let_def split: if_splits option.splits)

lemma fromisoformat_written: "parse_written s = Some d \<Longrightarrow> fromisoformat lib s = Some (Naive d)"
  by (simp add: fromisoformat_def)

lemma fromisoformat_isoformat:
  "valid_timestamp lib fmt ts \<Longrightarrow> fromisoformat lib (isoformat fmt ts) = Some ts"
  by (cases ts) (simp_all add: fromisoformat_written parse_written_isoformat)

lemma dt_le_refl [simp]: "dt_le d d"
  by (simp add: dt_le_def)

lemma noon_valid: "valid_datetime noon"
  by (simp add: noon_def valid_datetime_def days_in_month_def)

lemma later_valid: "valid_datetime later"
  by (simp add: later_def valid_datetime_def days_in_month_def)

lemma noon_le_later: "dt_le noon later"
  by (simp add: dt_le_def dt_key_def noon_def later_def)

lemma parse_noon: "fromisoformat lib (str ''2024-05-17T12:00:00'') = Some (Naive noon)"
  by (rule fromisoformat_written)
    (simp add: parse_written_def str_def slice_def parse_digits_def is_digit_def
      valid_datetime_def days_in_month_def noon_def)

lemma parse_later:
  "fromisoformat lib (str ''2024-05-17T12:30:15.250000'') = Some (Naive later)"
  by (rule fromisoformat_written)
    (simp add: parse_written_def str_def slice_def parse_digits_def is_digit_def
      valid_datetime_def days_in_month_def later_def)

lemma parse_day_before:
  "fromisoformat lib (str ''2024-05-16T12:00:00'') = Some (Naive (noon\<lparr>day := 16\<rparr>))"
  by (rule fromisoformat_written)
    (simp add: parse_written_def str_def slice_def parse_digits_def is_digit_def
      valid_datetime_def days_in_month_def noon_def)

subsection \<open>Note: construction and update\<close>

lemma truthy_simps [simp]:
  "truthy None = False" "truthy (Some s) = (s \<noteq> [])"
  by (simp_all add: truthy_def)

lemma Note_init_sel [simp]:
  "title (Note_init h c b now) = take 50 h"
  "category (Note_init h c b now) = c"
  "content (Note_init h c b now) = b"
  "created_at (Note_init h c b now) = Naive now"
  "updated_at (Note_init h c b now) = Naive now"
  by (simp_all add: Note_init_def)

lemma Note_update_sel [simp]:
  "title (Note_update n h c b now) = (if truthy h then take 50 (the h) else title n)"
  "category (Note_update n h c b now) = (case c of None \<Rightarrow> category n | Some c' \<Rightarrow> c')"
  "content (Note_update n h c b now) = (if truthy b then the b else content n)"
  "created_at (Note_update n h c b now) = created_at n"
  "updated_at (Note_update n h c b now) = Naive now"
  by (simp_all add: Note_update_def Let_def split: option.split)

text \<open>
  Claim C3. A title longer than 50 characters is cut to its first 50 characters, both
  by the constructor and by \<open>update\<close>; both return a note, there is no error result.
\<close>

theorem title_truncated:
  "50 < length t \<Longrightarrow>
     title (Note_init t c b now) = take 50 t \<and>
     title (Note_update n (Some t) c' b' now') = take 50 t"
  by auto

theorem title_truncated_witness:
  "50 < length long_title \<and>
   title (Note_init long_title MISC [] noon :: unit Note) = replicate 50 65 \<and>
   title (Note_update milk (Some long_title) None None later) = replicate 50 65"
  using title_truncated [of long_title MISC "[]" noon milk None None later]
  by (simp add: long_title_def)

text \<open>
  Claim C6. \<open>update\<close> leaves unchanged every field whose argument is \<open>None\<close> or the
  empty string (for the category: \<open>None\<close>), and never changes \<open>created_at\<close>.
\<close>

theorem update_frame:
  "created_at (Note_update n h c b now) = created_at n \<and>
   (h = None \<or> h = Some [] \<longrightarrow> title (Note_update n h c b now) = title n) \<and>
   (c = None \<longrightarrow> category (Note_update n h c b now) = category n) \<and>
   (b = None \<or> b = Some [] \<longrightarrow> content (Note_update n h c b now) = content n)"
  by auto

theorem update_frame_witness:
  "created_at (Note_update milk (Some []) None (Some []) later) = created_at milk \<and>
   title (Note_update milk (Some []) None (Some []) later) = str ''Buy milk'' \<and>
   category (Note_update milk (Some []) None (Some []) later) = HOME \<and>
   content (Note_update milk (Some []) None (Some []) later) = str ''2% milk, oat milk''"
  using update_frame [of milk "Some []" None "Some []" later]
  by (simp add: milk_def str_def)

text \<open>
  Claim C7. Every call of \<open>update\<close> sets \<open>updated_at\<close> to the clock reading of the
  call; with all arguments \<open>None\<close> nothing else changes.
\<close>

theorem update_touches:
  "updated_at (Note_update n h c b now) = Naive now \<and>
   Note_update n None None None now = n\<lparr>updated_at := Naive now\<rparr>"
  by (simp add: Note_update_def Let_def)

subsection \<open>Project: adding and removing\<close>

text \<open>
  Claim C9. \<open>add_note\<close> appends: the collection is one longer, its last element is the
  new note, and every earlier position holds what it held. Nothing is checked, so a
  note already in the collection is appended again.
\<close>

theorem add_note_appends:
  "length (memo_collection (add_note p n)) = Suc (length (memo_collection p)) \<and>
   last (memo_collection (add_note p n)) = n \<and>
   (\<forall>i < length (memo_collection p).
      memo_collection (add_note p n) ! i = memo_collection p ! i) \<and>
   memo_collection (add_note (add_note p n) n) = memo_collection p @ [n, n]"
  by (simp add: add_note_def nth_append)

theorem add_note_appends_witness:
  "length (memo_collection (add_note (add_note Project_init milk) milk)) = 2 \<and>
   last (memo_collection (add_note (add_note Project_init milk) milk)) = milk \<and>
   memo_collection (add_note (add_note Project_init milk) milk) ! 0 = milk"
  using add_note_appends [of "add_note Project_init milk" milk]
  by (simp add: add_note_def Project_init_def)

text \<open>
  Claim C5. \<open>remove_note_by_index\<close> with an index inside the collection removes the
  element at that position: the positions before it keep their elements, every later
  element moves down by one. With any other index the project is returned as it was.
\<close>

theorem remove_note_by_index_spec:
  "(0 \<le> i \<and> i < int (length (memo_collection p)) \<longrightarrow>
      length (memo_collection (remove_note_by_index p i)) = length (memo_collection p) - 1 \<and>
      (\<forall>j < nat i. memo_collection (remove_note_by_index p i) ! j = memo_collection p ! j) \<and>
      (\<forall>j. nat i \<le> j \<and> j < length (memo_collection p) - 1 \<longrightarrow>
           memo_collection (remove_note_by_index p i) ! j = memo_collection p ! Suc j)) \<and>
   (i < 0 \<or> int (length (memo_collection p)) \<le> i \<longrightarrow> remove_note_by_index p i = p)"
  by (auto simp: remove_note_by_index_def nth_append min_def)

theorem remove_note_by_index_spec_witness:
  "0 \<le> (1::int) \<and> 1 < int (length (memo_collection shelf)) \<and>
   memo_collection (remove_note_by_index shelf 1) = [milk, taxes] \<and>
   remove_note_by_index shelf (- 1) = shelf \<and>
   remove_note_by_index shelf 3 = shelf"
  using remove_note_by_index_spec [of 1 shelf] remove_note_by_index_spec [of "- 1" shelf]
    remove_note_by_index_spec [of 3 shelf]
  by (simp add: shelf_def remove_note_by_index_def)

subsection \<open>ProjectManager: a missing file\<close>

text \<open>
  Claim C8. When the storage file does not exist, \<open>load_project\<close> returns a new
  project with no notes, and no exception.
\<close>

theorem load_project_absent:
  "load_project lib Absent now = Inr Project_init \<and> memo_collection Project_init = []"
  by (simp add: load_project_def Project_init_def)

subsection \<open>Serialisation: \<open>to_dict\<close> and \<open>from_dict\<close>\<close>

lemma NoteCategory_call_value [simp]: "NoteCategory_call (category_value c) = Some c"
  by (cases c) (simp_all add: NoteCategory_call_def NoteCategory_members_def)

lemma NoteCategory_call_None: "NoteCategory_call v = None \<longleftrightarrow> (\<forall>c. category_value c \<noteq> v)"
proof
  assume "NoteCategory_call v = None"
  then show "\<forall>c. category_value c \<noteq> v"
    by (metis NoteCategory_call_value option.distinct(1))
next
  assume "\<forall>c. category_value c \<noteq> v"
  then show "NoteCategory_call v = None"
    by (simp add: NoteCategory_call_def find_None_iff)
qed

lemma Note_to_dict_fields:
  "has_fields (Note_to_dict fmt n) (title n) (category_value (category n)) (content n)
     (isoformat fmt (created_at n)) (isoformat fmt (updated_at n))"
  by (simp add: has_fields_def Note_to_dict_def str_def)

lemma Note_from_dict_fields:
  assumes "has_fields data t cv b cs us"
  shows "Note_from_dict lib data now =
     (case NoteCategory_call cv of None \<Rightarrow> Inl ValueError | Some c \<Rightarrow>
      case fromisoformat lib cs of None \<Rightarrow> Inl ValueError | Some cr \<Rightarrow>
      case fromisoformat lib us of None \<Rightarrow> Inl ValueError | Some up \<Rightarrow>
      Inr \<lparr>title = take 50 t, category = c, content = b, created_at = cr, updated_at = up\<rparr>)"
  using assms
  by (simp add: has_fields_def Note_from_dict_def Note_init_def split: option.split)

lemma Note_from_dict_clock: "Note_from_dict lib data now = Note_from_dict lib data now'"
  by (simp add: Note_from_dict_def Note_init_def split: option.split)

lemma Note_from_dict_Inr:
  assumes "Note_from_dict lib data now = Inr n"
  shows "\<exists>t cv b cs us. has_fields data t cv b cs us \<and> title n = take 50 t \<and>
           NoteCategory_call cv = Some (category n) \<and> content n = b \<and>
           fromisoformat lib cs = Some (created_at n) \<and>
           fromisoformat lib us = Some (updated_at n)"
  using assms
  by (auto simp: Note_from_dict_def Note_init_def has_fields_def split: option.splits)

text \<open>
  The title bound of \<open>valid_Note\<close> holds of every note the three operations make,
  and the constructor and \<open>update\<close> keep the timestamps valid when the clock
  readings are datetimes.
\<close>

lemma Note_init_title: "length (title (Note_init h c b now)) \<le> 50"
  by simp

lemma Note_update_title:
  "length (title n) \<le> 50 \<Longrightarrow> length (title (Note_update n h c b now)) \<le> 50"
  by simp

lemma Note_from_dict_title: "Note_from_dict lib data now = Inr n \<Longrightarrow> length (title n) \<le> 50"
  by (auto dest!: Note_from_dict_Inr)

lemma valid_Note_init: "valid_datetime now \<Longrightarrow> valid_Note lib fmt (Note_init h c b now)"
  by (simp add: valid_Note_def)

lemma valid_Note_update:
  "valid_Note lib fmt n \<Longrightarrow> valid_datetime now \<Longrightarrow> valid_Note lib fmt (Note_update n h c b now)"
  by (simp add: valid_Note_def)

lemma Note_round_trip:
  assumes "valid_Note lib fmt n"
  shows "Note_from_dict lib (Note_to_dict fmt n) now = Inr n"
  using assms
  by (simp add: Note_from_dict_fields [OF Note_to_dict_fields] valid_Note_def
      fromisoformat_isoformat)

lemma notes_round_trip:
  "\<forall>n \<in> set ns. valid_Note lib fmt n \<Longrightarrow>
     notes_from_dicts lib (map (Note_to_dict fmt) ns) now = Inr ns"
  by (induction ns) (simp_all add: Note_round_trip)

lemma notes_from_dicts_fails:
  "d \<in> set ds \<Longrightarrow> Note_from_dict lib d now = Inl e \<Longrightarrow>
     \<exists>e'. notes_from_dicts lib ds now = Inl e'"
  by (induction ds) (auto split: sum.splits)

lemma notes_from_dicts_error:
  "notes_from_dicts lib ds now = Inl e \<Longrightarrow> \<exists>d \<in> set ds. Note_from_dict lib d now = Inl e"
  by (induction ds) (auto split: sum.splits)

lemma notes_from_dicts_Inr:
  "notes_from_dicts lib ds now = Inr ns \<Longrightarrow>
     list_all2 (\<lambda>d n. Note_from_dict lib d now = Inr n) ds ns"
  by (induction ds arbitrary: ns) (auto split: sum.splits)

lemma notes_from_dicts_all:
  "list_all2 (\<lambda>d n. Note_from_dict lib d now = Inr n) ds ns \<Longrightarrow>
     notes_from_dicts lib ds now = Inr ns"
  by (induction ds ns rule: list_all2_induct) simp_all

lemma load_project_Holds:
  "load_project lib (Holds pd) now = Project_from_dict lib pd now"
  by (simp add: load_project_def)

lemma Project_from_dict_Inr:
  assumes "Project_from_dict lib pd now = Inr p"
  shows "\<exists>ds. pd (str ''notes'') = Some ds \<and>
           notes_from_dicts lib ds now = Inr (memo_collection p)"
  using assms
  by (auto simp: Project_from_dict_def Project_init_def split: option.splits sum.splits)

lemma not_a_category: "category_value c \<noteq> str ''NotARealCategory''"
  by (cases c) (simp_all add: str_def)

lemma milk_valid: "valid_Note lib fmt milk"
  by (simp add: milk_def valid_Note_init noon_valid)

lemma long_record_fields:
  "has_fields long_record long_title (category_value MISC) []
     (str ''2024-05-17T12:00:00'') (str ''2024-05-17T12:30:15.250000'')"
  by (simp add: has_fields_def long_record_def str_def)

lemma long_record_parses: "Note_from_dict no_lib long_record now = Inr long_note"
  by (simp only: Note_from_dict_fields [OF long_record_fields] NoteCategory_call_value
      parse_noon parse_later option.case long_note_def)
    (simp add: long_title_def)

lemma backdated_fields:
  "has_fields backdated (str ''Buy milk'') (category_value HOME) []
     (str ''2024-05-17T12:00:00'') (str ''2024-05-16T12:00:00'')"
  by (simp add: has_fields_def backdated_def str_def)

lemma backdated_parses: "Note_from_dict no_lib backdated now = Inr backdated_note"
  by (simp only: Note_from_dict_fields [OF backdated_fields] NoteCategory_call_value
      parse_noon parse_day_before option.case backdated_note_def)
    (simp add: str_def)

text \<open>
  Claim C1. Serialising a project and deserialising the result gives the project
  back: the same notes in the same order, each with its title, category, content and
  both timestamps. The notes are those the program can hold (\<open>valid_Note\<close>).
\<close>

theorem project_round_trip:
  "\<forall>n \<in> set (memo_collection p). valid_Note lib fmt n \<Longrightarrow>
     Project_from_dict lib (Project_to_dict fmt p) now = Inr p"
  by (simp add: Project_from_dict_def Project_to_dict_def notes_round_trip Project_init_def)

theorem project_round_trip_witness:
  "valid_Note no_lib no_fmt milk \<and> valid_Note no_lib no_fmt gym \<and>
   valid_Note no_lib no_fmt taxes \<and>
   Project_from_dict no_lib (Project_to_dict no_fmt shelf) later = Inr shelf"
proof -
  have v: "valid_Note no_lib no_fmt milk" "valid_Note no_lib no_fmt gym"
    "valid_Note no_lib no_fmt taxes"
    by (simp_all add: milk_def gym_def taxes_def valid_Note_init noon_valid later_valid)
  then have h: "\<forall>n \<in> set (memo_collection shelf). valid_Note no_lib no_fmt n"
    by (simp add: shelf_def)
  from project_round_trip [OF h, of later] v show ?thesis by simp
qed

lemma Note_from_dict_record:
  assumes "has_fields d t cv b cs us" and "category_value c = cv"
    and "fromisoformat lib cs = Some cr" and "fromisoformat lib us = Some up"
  shows "Note_from_dict lib d now =
     Inr \<lparr>title = take 50 t, category = c, content = b, created_at = cr, updated_at = up\<rparr>"
  using assms(2-) by (auto simp: Note_from_dict_fields [OF assms(1)])

lemma notes_from_dicts_records:
  assumes "\<forall>d \<in> set ds. \<exists>t cv b cs us c cr up. has_fields d t cv b cs us \<and>
     category_value c = cv \<and> fromisoformat lib cs = Some cr \<and> fromisoformat lib us = Some up"
  shows "\<exists>ns. notes_from_dicts lib ds now = Inr ns \<and> length ns = length ds \<and>
     (\<forall>i < length ds. \<forall>t. (ds ! i) (str ''title'') = Some t \<longrightarrow> title (ns ! i) = take 50 t)"
  using assms
proof (induction ds)
  case Nil
  then show ?case by simp
next
  case (Cons d ds)
  then obtain ns where ns: "notes_from_dicts lib ds now = Inr ns" "length ns = length ds"
    "\<forall>i < length ds. \<forall>t. (ds ! i) (str ''title'') = Some t \<longrightarrow> title (ns ! i) = take 50 t"
    by auto
  from Cons.prems obtain t cv b cs us c cr up where d: "has_fields d t cv b cs us"
    "category_value c = cv" "fromisoformat lib cs = Some cr" "fromisoformat lib us = Some up"
    by auto
  define n where "n = \<lparr>title = take 50 t, category = c, content = b, created_at = cr,
    updated_at = up\<rparr>"
  have n: "Note_from_dict lib d now = Inr n"
    unfolding n_def using d by (rule Note_from_dict_record)
  have "title n = take 50 t" by (simp add: n_def)
  moreover from d(1) have "d (str ''title'') = Some t" by (simp add: has_fields_def)
  ultimately have titles: "\<forall>i < length (d # ds). \<forall>t'. ((d # ds) ! i) (str ''title'') = Some t'
      \<longrightarrow> title ((n # ns) ! i) = take 50 t'"
    using ns(3) by (auto simp: nth_Cons split: nat.splits)
  from n ns(1) have "notes_from_dicts lib (d # ds) now = Inr (n # ns)" by simp
  with ns(2) titles show ?case by auto
qed

text \<open>
  Claim C4. On a record (a dict with the five keys), \<open>Note.from_dict\<close> raises exactly
  when the category string is the value of no member of \<open>NoteCategory\<close> or
  \<open>fromisoformat\<close> raises on one of the two timestamp strings, and what it raises is
  \<open>ValueError\<close>. Otherwise it returns the note with the record's fields; on the
  record that \<open>to_dict\<close> writes for a note it returns that note. A project file with
  such a failing record among its notes makes \<open>Project.from_dict\<close> and
  \<open>load_project\<close> raise: no project is returned.
\<close>

theorem Note_from_dict_spec:
  assumes "has_fields data t cv b cs us"
  shows "(Note_from_dict lib data now = Inl ValueError \<longleftrightarrow>
            (\<forall>c. category_value c \<noteq> cv) \<or> fromisoformat lib cs = None \<or>
            fromisoformat lib us = None) \<and>
         (\<forall>e. Note_from_dict lib data now = Inl e \<longrightarrow> e = ValueError) \<and>
         (\<forall>c cr up. category_value c = cv \<and> fromisoformat lib cs = Some cr \<and>
            fromisoformat lib us = Some up \<longrightarrow>
            Note_from_dict lib data now =
              Inr \<lparr>title = take 50 t, category = c, content = b, created_at = cr,
                   updated_at = up\<rparr>) \<and>
         (\<forall>fmt n. valid_Note lib fmt n \<longrightarrow>
            Note_from_dict lib (Note_to_dict fmt n) now = Inr n) \<and>
         (\<forall>pd ds. pd (str ''notes'') = Some ds \<and> data \<in> set ds \<and>
            ((\<forall>c. category_value c \<noteq> cv) \<or> fromisoformat lib cs = None \<or>
             fromisoformat lib us = None) \<longrightarrow>
            (\<exists>e. Project_from_dict lib pd now = Inl e \<and>
                 load_project lib (Holds pd) now = Inl e))"
proof (intro conjI allI impI)
  show "Note_from_dict lib data now = Inl ValueError \<longleftrightarrow>
          (\<forall>c. category_value c \<noteq> cv) \<or> fromisoformat lib cs = None \<or>
          fromisoformat lib us = None"
    by (auto simp: Note_from_dict_fields [OF assms] NoteCategory_call_None [symmetric]
        split: option.splits)
next
  fix e assume "Note_from_dict lib data now = Inl e"
  then show "e = ValueError"
    by (auto simp: Note_from_dict_fields [OF assms] split: option.splits)
next
  fix c cr up
  assume "category_value c = cv \<and> fromisoformat lib cs = Some cr \<and>
    fromisoformat lib us = Some up"
  then show "Note_from_dict lib data now =
      Inr \<lparr>title = take 50 t, category = c, content = b, created_at = cr, updated_at = up\<rparr>"
    using assms by (auto intro: Note_from_dict_record)
next
  fix fmt n assume "valid_Note lib fmt n"
  then show "Note_from_dict lib (Note_to_dict fmt n) now = Inr n" by (rule Note_round_trip)
next
  fix pd ds
  assume a: "pd (str ''notes'') = Some ds \<and> data \<in> set ds \<and>
    ((\<forall>c. category_value c \<noteq> cv) \<or> fromisoformat lib cs = None \<or>
     fromisoformat lib us = None)"
  then have "Note_from_dict lib data now = Inl ValueError"
    by (auto simp: Note_from_dict_fields [OF assms] NoteCategory_call_None [symmetric]
        split: option.splits)
  with a obtain e where "notes_from_dicts lib ds now = Inl e"
    using notes_from_dicts_fails by blast
  with a show "\<exists>e. Project_from_dict lib pd now = Inl e \<and>
      load_project lib (Holds pd) now = Inl e"
    by (simp add: Project_from_dict_def load_project_def)
qed

theorem Note_from_dict_spec_witness:
  "has_fields bad_category (str ''Buy milk'') (str ''NotARealCategory'') []
     (str ''2024-05-17T12:00:00'') (str ''2024-05-17T12:00:00'') \<and>
   Note_from_dict no_lib bad_category noon = Inl ValueError \<and>
   Note_from_dict no_lib (Note_to_dict no_fmt milk) noon = Inr milk \<and>
   load_project no_lib (Holds bad_file) noon = Inl ValueError"
proof -
  have f: "has_fields bad_category (str ''Buy milk'') (str ''NotARealCategory'') []
     (str ''2024-05-17T12:00:00'') (str ''2024-05-17T12:00:00'')"
    by (simp add: has_fields_def bad_category_def str_def)
  have c: "\<forall>c. category_value c \<noteq> str ''NotARealCategory''"
    by (simp add: not_a_category)
  have n: "bad_file (str ''notes'') = Some [Note_to_dict no_fmt milk, bad_category]"
    by (simp add: bad_file_def)
  note spec = Note_from_dict_spec [OF f, of no_lib noon]
  from spec c have bad: "Note_from_dict no_lib bad_category noon = Inl ValueError"
    by blast
  from spec milk_valid [of no_lib no_fmt]
  have good: "Note_from_dict no_lib (Note_to_dict no_fmt milk) noon = Inr milk"
    by blast
  from n bad good have "load_project no_lib (Holds bad_file) noon = Inl ValueError"
    by (simp add: load_project_def Project_from_dict_def)
  with f bad good show ?thesis by simp
qed

text \<open>
  Claim C10. \<open>Note.from_dict\<close> builds the note through the constructor, so a stored
  title of more than 50 characters comes back cut to its first 50. Every note of a
  loaded project has a title of at most 50 characters, and a file of records with
  valid categories and parseable timestamps, the record with the long title among
  them, loads into a project with one note for each record, in order, each title
  being the first 50 characters of the stored one.
\<close>

theorem Note_from_dict_truncates:
  assumes "has_fields data t cv b cs us" and "category_value c = cv"
    and "fromisoformat lib cs = Some cr" and "fromisoformat lib us = Some up"
    and "50 < length t"
  shows "(\<exists>n. Note_from_dict lib data now = Inr n \<and> title n = take 50 t \<and>
            length (title n) = 50) \<and>
         (\<forall>pd p. load_project lib (Holds pd) now = Inr p \<longrightarrow>
            (\<forall>n \<in> set (memo_collection p). length (title n) \<le> 50)) \<and>
         (\<forall>pd ds. pd (str ''notes'') = Some ds \<and> data \<in> set ds \<and>
            (\<forall>d \<in> set ds. \<exists>t' cv' b' cs' us' c' cr' up'. has_fields d t' cv' b' cs' us' \<and>
               category_value c' = cv' \<and> fromisoformat lib cs' = Some cr' \<and>
               fromisoformat lib us' = Some up') \<longrightarrow>
            (\<exists>p. load_project lib (Holds pd) now = Inr p \<and>
                 length (memo_collection p) = length ds \<and>
                 (\<forall>i < length ds. \<forall>t'. (ds ! i) (str ''title'') = Some t' \<longrightarrow>
                    title (memo_collection p ! i) = take 50 t')))"
proof (intro conjI allI impI ballI)
  from assms
  show "\<exists>n. Note_from_dict lib data now = Inr n \<and> title n = take 50 t \<and>
      length (title n) = 50"
    by (auto simp: Note_from_dict_fields [OF assms(1)])
next
  fix pd p n
  assume "load_project lib (Holds pd) now = Inr p" and n: "n \<in> set (memo_collection p)"
  then have "Project_from_dict lib pd now = Inr p"
    by (simp add: load_project_Holds)
  then obtain ds where "notes_from_dicts lib ds now = Inr (memo_collection p)"
    using Project_from_dict_Inr by blast
  then have "list_all2 (\<lambda>d n. Note_from_dict lib d now = Inr n) ds (memo_collection p)"
    by (rule notes_from_dicts_Inr)
  with n obtain d where "Note_from_dict lib d now = Inr n"
    by (auto simp: list_all2_conv_all_nth in_set_conv_nth)
  then show "length (title n) \<le> 50"
    by (rule Note_from_dict_title)
next
  fix pd ds
  assume a: "pd (str ''notes'') = Some ds \<and> data \<in> set ds \<and>
    (\<forall>d \<in> set ds. \<exists>t' cv' b' cs' us' c' cr' up'. has_fields d t' cv' b' cs' us' \<and>
       category_value c' = cv' \<and> fromisoformat lib cs' = Some cr' \<and>
       fromisoformat lib us' = Some up')"
  then obtain ns where ns: "notes_from_dicts lib ds now = Inr ns" "length ns = length ds"
    "\<forall>i < length ds. \<forall>t. (ds ! i) (str ''title'') = Some t \<longrightarrow> title (ns ! i) = take 50 t"
    using notes_from_dicts_records [of ds lib now] by blast
  with a have "load_project lib (Holds pd) now = Inr \<lparr>memo_collection = ns\<rparr>"
    by (simp add: load_project_def Project_from_dict_def Project_init_def)
  with ns show "\<exists>p. load_project lib (Holds pd) now = Inr p \<and>
      length (memo_collection p) = length ds \<and>
      (\<forall>i < length ds. \<forall>t'. (ds ! i) (str ''title'') = Some t' \<longrightarrow>
         title (memo_collection p ! i) = take 50 t')"
    by simp
qed

theorem Note_from_dict_truncates_witness:
  "has_fields long_record long_title (category_value MISC) []
     (str ''2024-05-17T12:00:00'') (str ''2024-05-17T12:30:15.250000'') \<and>
   50 < length long_title \<and>
   Note_from_dict no_lib long_record noon = Inr long_note \<and>
   title long_note = replicate 50 65 \<and>
   load_project no_lib (Holds long_file) noon =
     Inr \<lparr>memo_collection = [long_note, long_note]\<rparr>"
proof -
  have l: "50 < length long_title"
    by (simp add: long_title_def)
  have "\<exists>n. Note_from_dict no_lib long_record noon = Inr n \<and> title n = take 50 long_title \<and>
      length (title n) = 50"
    by (rule Note_from_dict_truncates [OF long_record_fields refl parse_noon parse_later l,
          of no_lib noon, THEN conjunct1])
  then have t: "title long_note = take 50 long_title"
    by (simp add: long_record_parses)
  have f: "long_file (str ''notes'') = Some [long_record, long_record]"
    by (simp add: long_file_def)
  have p: "Project_from_dict no_lib long_file noon =
      Inr \<lparr>memo_collection = [long_note, long_note]\<rparr>"
    by (simp add: Project_from_dict_def f long_record_parses Project_init_def)
  have "load_project no_lib (Holds long_file) noon =
      Inr \<lparr>memo_collection = [long_note, long_note]\<rparr>"
    by (simp only: load_project_Holds p)
  moreover from t have "title long_note = replicate 50 65"
    by (simp add: long_title_def)
  ultimately show ?thesis
    using long_record_fields l long_record_parses [of noon] by blast
qed

subsection \<open>The order of the two timestamps\<close>

lemma updates_created_at [simp]: "created_at (updates n calls) = created_at n"
  by (induction n calls rule: updates.induct) simp_all

lemma updates_updated_at:
  "calls \<noteq> [] \<Longrightarrow> updated_at (updates n calls) = Naive (clock_of (last calls))"
proof (induction n calls rule: updates.induct)
  case (1 self)
  then show ?case by simp
next
  case (2 self heading category' content_body now calls)
  then show ?case by (cases calls) (simp_all add: clock_of_def)
qed

lemma Note_from_dict_timestamps:
  assumes "Note_from_dict lib data now = Inr m"
    and "data (str ''created_at'') = Some cs" and "data (str ''updated_at'') = Some us"
  shows "fromisoformat lib cs = Some (created_at m)"
    and "fromisoformat lib us = Some (updated_at m)"
proof -
  from assms(1) obtain t cv b cs' us' where f: "has_fields data t cv b cs' us'"
    and p: "fromisoformat lib cs' = Some (created_at m)"
      "fromisoformat lib us' = Some (updated_at m)"
    using Note_from_dict_Inr by blast
  from f assms(2,3) have "cs' = cs" "us' = us" by (simp_all add: has_fields_def)
  with p show "fromisoformat lib cs = Some (created_at m)"
    and "fromisoformat lib us = Some (updated_at m)" by simp_all
qed

text \<open>
  Claim C2, as stated, fails in two ways. \<open>Note.from_dict\<close> assigns the two
  timestamps it parses from the record and never compares them: the record
  \<open>backdated\<close> is read without error into a note whose \<open>updated_at\<close> is a day earlier
  than its \<open>created_at\<close>. And \<open>update\<close> assigns whatever \<open>datetime.now()\<close> returns,
  the local wall-clock time, which reads earlier than before once the clock has been
  set back (a correction, the end of daylight saving time): the note \<open>milk\<close>, made at
  noon and updated when the clock reads 11:00, has \<open>updated_at\<close> earlier than
  \<open>created_at\<close>.
\<close>

theorem timestamps_counterexample:
  "Note_from_dict no_lib backdated later = Inr backdated_note \<and>
   ts_le no_cmp (created_at backdated_note) (updated_at backdated_note) = Inr False \<and>
   ts_le no_cmp (created_at milk) (updated_at milk) = Inr True \<and>
   ts_le no_cmp (created_at (Note_update milk None None None morning))
     (updated_at (Note_update milk None None None morning)) = Inr False"
proof -
  have "ts_le no_cmp (created_at backdated_note) (updated_at backdated_note) = Inr False"
    by (simp add: backdated_note_def dt_le_def dt_key_def noon_def)
  moreover have "ts_le no_cmp (created_at milk) (updated_at milk) = Inr True"
    by (simp add: milk_def)
  moreover have "ts_le no_cmp (created_at (Note_update milk None None None morning))
     (updated_at (Note_update milk None None None morning)) = Inr False"
    by (simp add: milk_def morning_def dt_le_def dt_key_def noon_def)
  ultimately show ?thesis using backdated_parses [of later] by simp
qed

text \<open>
  Claim C2, amended. A new note has \<open>updated_at = created_at\<close>, so
  \<open>updated_at >= created_at\<close> holds of it. On a note of which it holds, it holds again
  after any sequence of \<open>update\<close> calls in each of which the clock reading is not
  earlier than the note's \<open>created_at\<close>; after a sequence that is not empty,
  \<open>created_at\<close> is what it was and \<open>updated_at\<close> is the clock reading of the last call.
  A note returned by \<open>from_dict\<close> has as \<open>created_at\<close> and \<open>updated_at\<close> exactly what
  \<open>fromisoformat\<close> returns for the record's two strings, which are not compared:
  \<open>updated_at >= created_at\<close> holds of the note exactly when it holds of these two.
\<close>

theorem timestamps_ordered:
  "updated_at (Note_init h c b now) = created_at (Note_init h c b now) \<and>
   ts_le cmp (created_at (Note_init h c b now)) (updated_at (Note_init h c b now)) = Inr True \<and>
   (ts_le cmp (created_at n) (updated_at n) = Inr True \<and>
    (\<forall>u \<in> set calls. ts_le cmp (created_at n) (Naive (clock_of u)) = Inr True) \<longrightarrow>
      ts_le cmp (created_at (updates n calls)) (updated_at (updates n calls)) = Inr True) \<and>
   (calls \<noteq> [] \<longrightarrow>
      created_at (updates n calls) = created_at n \<and>
      updated_at (updates n calls) = Naive (clock_of (last calls))) \<and>
   (Note_from_dict lib data now' = Inr m \<and> data (str ''created_at'') = Some cs \<and>
    data (str ''updated_at'') = Some us \<longrightarrow>
      fromisoformat lib cs = Some (created_at m) \<and>
      fromisoformat lib us = Some (updated_at m)) \<and>
   (Note_from_dict lib data now' = Inr m \<and> data (str ''created_at'') = Some cs \<and>
    data (str ''updated_at'') = Some us \<and> fromisoformat lib cs = Some cr \<and>
    fromisoformat lib us = Some up \<longrightarrow>
      ts_le cmp (created_at m) (updated_at m) = ts_le cmp cr up)"
proof (intro conjI impI)
  show "updated_at (Note_init h c b now) = created_at (Note_init h c b now)"
    by simp
next
  show "ts_le cmp (created_at (Note_init h c b now)) (updated_at (Note_init h c b now)) =
      Inr True"
    by simp
next
  assume a: "ts_le cmp (created_at n) (updated_at n) = Inr True \<and>
    (\<forall>u \<in> set calls. ts_le cmp (created_at n) (Naive (clock_of u)) = Inr True)"
  show "ts_le cmp (created_at (updates n calls)) (updated_at (updates n calls)) = Inr True"
  proof (cases "calls = []")
    case True
    with a show ?thesis by simp
  next
    case False
    then have "last calls \<in> set calls" by simp
    with a False show ?thesis by (simp add: updates_updated_at)
  qed
next
  assume "calls \<noteq> []"
  then show "updated_at (updates n calls) = Naive (clock_of (last calls))"
    by (rule updates_updated_at)
next
  show "created_at (updates n calls) = created_at n"
    by simp
next
  assume a: "Note_from_dict lib data now' = Inr m \<and> data (str ''created_at'') = Some cs \<and>
    data (str ''updated_at'') = Some us"
  then show "fromisoformat lib cs = Some (created_at m)"
    and "fromisoformat lib us = Some (updated_at m)"
    by (auto dest: Note_from_dict_timestamps)
next
  assume a: "Note_from_dict lib data now' = Inr m \<and> data (str ''created_at'') = Some cs \<and>
    data (str ''updated_at'') = Some us \<and> fromisoformat lib cs = Some cr \<and>
    fromisoformat lib us = Some up"
  then have "fromisoformat lib cs = Some (created_at m)"
    and "fromisoformat lib us = Some (updated_at m)"
    by (auto dest: Note_from_dict_timestamps)
  with a show "ts_le cmp (created_at m) (updated_at m) = ts_le cmp cr up"
    by simp
qed

theorem timestamps_ordered_witness:
  "updated_at milk = created_at milk \<and>
   ts_le no_cmp (created_at milk) (updated_at milk) = Inr True \<and>
   ts_le no_cmp (created_at milk) (Naive (clock_of eggs_call)) = Inr True \<and>
   ts_le no_cmp (created_at (updates milk [eggs_call])) (updated_at (updates milk [eggs_call])) =
     Inr True \<and>
   updated_at (updates milk [eggs_call]) = Naive later \<and>
   Note_from_dict no_lib long_record noon = Inr long_note \<and>
   fromisoformat no_lib (str ''2024-05-17T12:00:00'') = Some (created_at long_note) \<and>
   fromisoformat no_lib (str ''2024-05-17T12:30:15.250000'') = Some (updated_at long_note)"
proof -
  have h1: "ts_le no_cmp (created_at milk) (updated_at milk) = Inr True"
    by (simp add: milk_def)
  have h2: "ts_le no_cmp (created_at milk) (Naive (clock_of eggs_call)) = Inr True"
    by (simp add: milk_def eggs_call_def clock_of_def noon_le_later)
  have h3: "long_record (str ''created_at'') = Some (str ''2024-05-17T12:00:00'')"
    "long_record (str ''updated_at'') = Some (str ''2024-05-17T12:30:15.250000'')"
    using long_record_fields by (simp_all add: has_fields_def)
  have u: "updated_at (updates milk [eggs_call]) = Naive later"
    by (simp add: eggs_call_def)
  have e: "updated_at milk = created_at milk"
    by (simp add: milk_def)
  from timestamps_ordered [where n = milk and calls = "[eggs_call]" and cmp = no_cmp
      and lib = no_lib and data = long_record and now' = noon and m = long_note
      and cs = "str ''2024-05-17T12:00:00''" and us = "str ''2024-05-17T12:30:15.250000''"]
    h1 h2 h3 u e long_record_parses [of noon]
  show ?thesis by simp
qed

end
